theory Spec2Isabelle
  imports Complex_Main
begin

section \<open>JavaScript values and built-ins\<close>

text \<open>
  The server handles rows parsed from a CSV file. A cell is a JavaScript value: \<open>null\<close>,
  \<open>undefined\<close>, a string, a number, a boolean, a \<open>Date\<close>, a function, or some other object
  (the parser turns a JSON cell into a nested record or an array). What the server does with
  an object is to convert it to a primitive, so an object is represented by the outcome of
  that conversion: the text its \<open>toString\<close> gives, or nothing when neither \<open>toString\<close> nor
  \<open>valueOf\<close> gives a primitive (as for the JSON cell \<open>{"toString": 1}\<close>), in which case the
  conversion raises a \<open>TypeError\<close>. A function is represented by its source text. A number
  is \<open>NaN\<close>, an infinity or a finite value (the sign of zero is not represented); a \<open>Date\<close>
  is invalid or holds a time value in milliseconds.
\<close>

datatype jsnum = NaN | Num rat | PosInfinity | NegInfinity

datatype jsdate = InvalidDate | TimeValue int

datatype jsval =
    JNull
  | JUndefined
  | JString string
  | JNumber jsnum
  | JBoolean bool
  | JDate jsdate
  | JObject "string option"
  | JFunction string

text \<open>Exceptions are values: the three kinds the handlers can meet, and a rejected SQL statement.\<close>

datatype error =
    Error string
  | TypeError string
  | RangeError string
  | SqlError string

definition bindE :: "error + 'a \<Rightarrow> ('a \<Rightarrow> error + 'b) \<Rightarrow> error + 'b" where
  "bindE m f = (case m of Inl e \<Rightarrow> Inl e | Inr x \<Rightarrow> f x)"

fun mapE :: "('a \<Rightarrow> error + 'b) \<Rightarrow> 'a list \<Rightarrow> error + 'b list" where
  "mapE f [] = Inr []"
| "mapE f (x # xs) = bindE (f x) (\<lambda>y. bindE (mapE f xs) (\<lambda>ys. Inr (y # ys)))"

text \<open>
  The built-ins that read or print text (\<open>Number\<close>, \<open>parseFloat\<close>, \<open>parseInt\<close>, the
  \<open>Date\<close> parser, \<open>String\<close> on numbers and dates, \<open>toISOString\<close>) belong to the
  JavaScript engine, not to the server. They are a parameter of every function that calls
  them. So are the rounding of a real number to the nearest double (\<open>toDouble\<close>, which gives
  an infinity beyond the range of doubles), through which every arithmetic result passes,
  and the members of \<open>Object.prototype\<close>, which every row inherits.
\<close>

record host =
  NumberOfString :: "string \<Rightarrow> jsnum"
  parseFloatOfString :: "string \<Rightarrow> jsnum"
  parseIntOfString :: "string \<Rightarrow> jsnum"
  DateOfString :: "string \<Rightarrow> jsdate"
  StringOfNumber :: "rat \<Rightarrow> string"
  StringOfDate :: "int \<Rightarrow> string"
  toISOStringOfTime :: "int \<Rightarrow> string"
  toDouble :: "rat \<Rightarrow> jsnum"
  ObjectPrototype :: "string \<Rightarrow> jsval option"

fun typeof :: "jsval \<Rightarrow> string" where
  "typeof JNull = ''object''"
| "typeof JUndefined = ''undefined''"
| "typeof (JString s) = ''string''"
| "typeof (JNumber n) = ''number''"
| "typeof (JBoolean b) = ''boolean''"
| "typeof (JDate d) = ''object''"
| "typeof (JObject s) = ''object''"
| "typeof (JFunction s) = ''function''"

fun instanceofDate :: "jsval \<Rightarrow> bool" where
  "instanceofDate (JDate d) = True"
| "instanceofDate v = False"

definition isNaN :: "jsnum \<Rightarrow> bool" where
  "isNaN n = (n = NaN)"

text \<open>
  \<open>String(value)\<close>, \<open>Number(value)\<close> and \<open>new Date(value)\<close>. On an object they first
  convert it to a primitive, which raises when the object has no usable \<open>toString\<close> and
  \<open>valueOf\<close>.
\<close>

definition toPrimitive :: "string option \<Rightarrow> error + string" where
  "toPrimitive text =
     (case text of
        None \<Rightarrow> Inl (TypeError ''Cannot convert object to primitive value'')
      | Some s \<Rightarrow> Inr s)"

fun js_String :: "host \<Rightarrow> jsval \<Rightarrow> error + string" where
  "js_String h JNull = Inr ''null''"
| "js_String h JUndefined = Inr ''undefined''"
| "js_String h (JString s) = Inr s"
| "js_String h (JNumber NaN) = Inr ''NaN''"
| "js_String h (JNumber (Num r)) = Inr (StringOfNumber h r)"
| "js_String h (JNumber PosInfinity) = Inr ''Infinity''"
| "js_String h (JNumber NegInfinity) = Inr ''-Infinity''"
| "js_String h (JBoolean b) = Inr (if b then ''true'' else ''false'')"
| "js_String h (JDate InvalidDate) = Inr ''Invalid Date''"
| "js_String h (JDate (TimeValue t)) = Inr (StringOfDate h t)"
| "js_String h (JObject text) = toPrimitive text"
| "js_String h (JFunction s) = Inr s"

fun js_Number :: "host \<Rightarrow> jsval \<Rightarrow> error + jsnum" where
  "js_Number h JNull = Inr (Num 0)"
| "js_Number h JUndefined = Inr NaN"
| "js_Number h (JString s) = Inr (NumberOfString h s)"
| "js_Number h (JNumber n) = Inr n"
| "js_Number h (JBoolean b) = Inr (Num (if b then 1 else 0))"
| "js_Number h (JDate InvalidDate) = Inr NaN"
| "js_Number h (JDate (TimeValue t)) = Inr (Num (of_int t))"
| "js_Number h (JObject text) = bindE (toPrimitive text) (\<lambda>s. Inr (NumberOfString h s))"
| "js_Number h (JFunction s) = Inr (NumberOfString h s)"

definition js_parseFloat :: "host \<Rightarrow> jsval \<Rightarrow> error + jsnum" where
  "js_parseFloat h v = bindE (js_String h v) (\<lambda>s. Inr (parseFloatOfString h s))"

fun js_Boolean :: "jsval \<Rightarrow> bool" where
  "js_Boolean JNull = False"
| "js_Boolean JUndefined = False"
| "js_Boolean (JString s) = (s \<noteq> [])"
| "js_Boolean (JNumber NaN) = False"
| "js_Boolean (JNumber (Num r)) = (r \<noteq> 0)"
| "js_Boolean (JNumber PosInfinity) = True"
| "js_Boolean (JNumber NegInfinity) = True"
| "js_Boolean (JBoolean b) = b"
| "js_Boolean (JDate d) = True"
| "js_Boolean (JObject text) = True"
| "js_Boolean (JFunction s) = True"

text \<open>\<open>new Date(value)\<close>: a number is clipped to the range of time values and truncated.\<close>

definition timeClip :: "rat \<Rightarrow> jsdate" where
  "timeClip r =
     (if \<bar>r\<bar> \<le> 8640000000000000
      then TimeValue (if 0 \<le> r then \<lfloor>r\<rfloor> else \<lceil>r\<rceil>)
      else InvalidDate)"

fun js_newDate :: "host \<Rightarrow> jsval \<Rightarrow> error + jsdate" where
  "js_newDate h JNull = Inr (TimeValue 0)"
| "js_newDate h JUndefined = Inr InvalidDate"
| "js_newDate h (JString s) = Inr (DateOfString h s)"
| "js_newDate h (JNumber (Num r)) = Inr (timeClip r)"
| "js_newDate h (JNumber n) = Inr InvalidDate"
| "js_newDate h (JBoolean b) = Inr (TimeValue (if b then 1 else 0))"
| "js_newDate h (JDate d) = Inr d"
| "js_newDate h (JObject text) = bindE (toPrimitive text) (\<lambda>s. Inr (DateOfString h s))"
| "js_newDate h (JFunction s) = Inr (DateOfString h s)"

definition getTime :: "jsdate \<Rightarrow> jsnum" where
  "getTime d = (case d of InvalidDate \<Rightarrow> NaN | TimeValue t \<Rightarrow> Num (of_int t))"

text \<open>
  Arithmetic on doubles: the exact result, rounded by \<open>toDouble\<close>, with the rules of IEEE 754
  for \<open>NaN\<close> and the infinities. \<open>Math.ceil\<close> of a double needs no rounding.
\<close>

definition infinityOf :: "bool \<Rightarrow> jsnum" where
  "infinityOf positive = (if positive then PosInfinity else NegInfinity)"

fun numMinus :: "host \<Rightarrow> jsnum \<Rightarrow> jsnum \<Rightarrow> jsnum" where
  "numMinus h NaN b = NaN"
| "numMinus h a NaN = NaN"
| "numMinus h (Num x) (Num y) = toDouble h (x - y)"
| "numMinus h (Num x) PosInfinity = NegInfinity"
| "numMinus h (Num x) NegInfinity = PosInfinity"
| "numMinus h PosInfinity PosInfinity = NaN"
| "numMinus h PosInfinity b = PosInfinity"
| "numMinus h NegInfinity NegInfinity = NaN"
| "numMinus h NegInfinity b = NegInfinity"

fun numTimes :: "host \<Rightarrow> jsnum \<Rightarrow> jsnum \<Rightarrow> jsnum" where
  "numTimes h NaN b = NaN"
| "numTimes h a NaN = NaN"
| "numTimes h (Num x) (Num y) = toDouble h (x * y)"
| "numTimes h (Num x) PosInfinity = (if x = 0 then NaN else infinityOf (0 < x))"
| "numTimes h (Num x) NegInfinity = (if x = 0 then NaN else infinityOf (x < 0))"
| "numTimes h PosInfinity (Num y) = (if y = 0 then NaN else infinityOf (0 < y))"
| "numTimes h NegInfinity (Num y) = (if y = 0 then NaN else infinityOf (y < 0))"
| "numTimes h PosInfinity PosInfinity = PosInfinity"
| "numTimes h PosInfinity NegInfinity = NegInfinity"
| "numTimes h NegInfinity PosInfinity = NegInfinity"
| "numTimes h NegInfinity NegInfinity = PosInfinity"

fun numDivide :: "host \<Rightarrow> jsnum \<Rightarrow> jsnum \<Rightarrow> jsnum" where
  "numDivide h NaN b = NaN"
| "numDivide h a NaN = NaN"
| "numDivide h (Num x) (Num y) =
     (if y = 0 then (if x = 0 then NaN else infinityOf (0 < x)) else toDouble h (x / y))"
| "numDivide h (Num x) b = Num 0"
| "numDivide h PosInfinity (Num y) = infinityOf (0 \<le> y)"
| "numDivide h NegInfinity (Num y) = infinityOf (y < 0)"
| "numDivide h a b = NaN"

fun Math_ceil :: "jsnum \<Rightarrow> jsnum" where
  "Math_ceil (Num x) = Num (of_int \<lceil>x\<rceil>)"
| "Math_ceil n = n"

text \<open>\<open>value.toISOString()\<close> raises a \<open>RangeError\<close> on an invalid date.\<close>

definition toISOString :: "host \<Rightarrow> jsval \<Rightarrow> error + string" where
  "toISOString h v =
     (case v of
        JDate InvalidDate \<Rightarrow> Inl (RangeError ''Invalid time value'')
      | JDate (TimeValue t) \<Rightarrow> Inr (toISOStringOfTime h t)
      | _ \<Rightarrow> Inl (TypeError ''not a function''))"

text \<open>
  A string method called on a value that is not a string raises a \<open>TypeError\<close>, so the
  \<open>typeof\<close> tests that guard such calls in the source are part of what is verified.
\<close>

definition stringMethod :: "(string \<Rightarrow> 'a) \<Rightarrow> jsval \<Rightarrow> error + 'a" where
  "stringMethod f v =
     (case v of
        JString s \<Rightarrow> Inr (f s)
      | _ \<Rightarrow> Inl (TypeError ''not a function''))"

text \<open>Lower case on ASCII letters: a letter \<open>A\<close> to \<open>Z\<close> gets bit 5 set, which adds 32.\<close>

definition lowerChar :: "char \<Rightarrow> char" where
  "lowerChar c =
     (let n = (of_char c :: nat)
      in if 65 \<le> n \<and> n \<le> 90
         then Char (digit0 c) (digit1 c) (digit2 c) (digit3 c) (digit4 c) True (digit6 c) (digit7 c)
         else c)"

definition toLowerCase :: "jsval \<Rightarrow> error + string" where
  "toLowerCase v = stringMethod (map lowerChar) v"

text \<open>\<open>value.replace(/'/g, "''")\<close>: every single quote is doubled.\<close>

definition doubleQuotes :: "string \<Rightarrow> string" where
  "doubleQuotes s = concat (map (\<lambda>c. if c = CHR 0x27 then [CHR 0x27, CHR 0x27] else [c]) s)"

definition replaceQuotes :: "jsval \<Rightarrow> error + string" where
  "replaceQuotes v = stringMethod doubleQuotes v"

text \<open>\<open>name.replace(/[^a-zA-Z0-9_]/g, '_')\<close> on a column name, which is always a string.\<close>

definition isWordChar :: "char \<Rightarrow> bool" where
  "isWordChar c =
     (let n = (of_char c :: nat)
      in (97 \<le> n \<and> n \<le> 122) \<or> (65 \<le> n \<and> n \<le> 90) \<or> (48 \<le> n \<and> n \<le> 57) \<or> n = 95)"

definition sanitize :: "string \<Rightarrow> string" where
  "sanitize name = map (\<lambda>c. if isWordChar c then c else CHR ''_'') name"

fun join :: "string \<Rightarrow> string list \<Rightarrow> string" where
  "join sep [] = []"
| "join sep [x] = x"
| "join sep (x # y # ys) = x @ sep @ join sep (y # ys)"

subsection \<open>Rows\<close>

text \<open>
  A row is a record whose keys are column names; the association list holds its own
  properties in the order \<open>Object.keys\<close> enumerates them. Reading \<open>row[key]\<close> for a key
  the row does not have goes to \<open>Object.prototype\<close>: it gives the inherited member when
  there is one (for \<open>toString\<close>, a function) and \<open>undefined\<close> otherwise.
\<close>

type_synonym jsrow = "(string \<times> jsval) list"

definition Object_keys :: "jsrow \<Rightarrow> string list" where
  "Object_keys row = map fst row"

definition getProp :: "host \<Rightarrow> jsrow \<Rightarrow> string \<Rightarrow> jsval" where
  "getProp h row key =
     (case map_of row key of
        Some v \<Rightarrow> v
      | None \<Rightarrow> (case ObjectPrototype h key of Some v \<Rightarrow> v | None \<Rightarrow> JUndefined))"

section \<open>Type inference\<close>

record flags =
  hasString :: bool
  hasNumber :: bool
  hasBoolean :: bool
  hasDate :: bool

definition noFlags :: flags where
  "noFlags = \<lparr>hasString = False, hasNumber = False, hasBoolean = False, hasDate = False\<rparr>"

text \<open>The body of the loop \<open>for (const row of data)\<close>, the same in both inference functions.\<close>

definition scanValue :: "host \<Rightarrow> jsval \<Rightarrow> flags \<Rightarrow> error + flags" where
  "scanValue h v fl =
     (if v = JNull \<or> v = JUndefined \<or> v = JString [] then Inr fl
      else if typeof v = ''string'' then
        (let fl1 = fl\<lparr>hasString := True\<rparr> in
         bindE (js_Number h v) (\<lambda>n.
         bindE (if isNaN n then Inr False
                else bindE (js_parseFloat h v) (\<lambda>f. Inr (\<not> isNaN f))) (\<lambda>numeric.
           if numeric then Inr (fl1\<lparr>hasNumber := True\<rparr>)
           else bindE (toLowerCase v) (\<lambda>l.
             if l = ''true'' \<or> l = ''false'' then Inr (fl1\<lparr>hasBoolean := True\<rparr>)
             else bindE (js_newDate h v) (\<lambda>d.
               if \<not> isNaN (getTime d) then Inr (fl1\<lparr>hasDate := True\<rparr>)
               else Inr fl1)))))
      else if typeof v = ''number'' then Inr (fl\<lparr>hasNumber := True\<rparr>)
      else if typeof v = ''boolean'' then Inr (fl\<lparr>hasBoolean := True\<rparr>)
      else if instanceofDate v then Inr (fl\<lparr>hasDate := True\<rparr>)
      else Inr fl)"

fun scanRows :: "host \<Rightarrow> string \<Rightarrow> jsrow list \<Rightarrow> flags \<Rightarrow> error + flags" where
  "scanRows h columnName [] fl = Inr fl"
| "scanRows h columnName (row # data) fl =
     bindE (scanValue h (getProp h row columnName) fl) (scanRows h columnName data)"

text \<open>\<open>inferSqlType\<close> of the serverless handler: the loop, then the chain of returns.\<close>

definition inferSqlType :: "host \<Rightarrow> string \<Rightarrow> jsrow list \<Rightarrow> error + string" where
  "inferSqlType h columnName data =
     bindE (scanRows h columnName data noFlags) (\<lambda>fl.
       if hasNumber fl \<and> \<not> hasString fl \<and> \<not> hasDate fl \<and> \<not> hasBoolean fl then Inr ''NUMERIC''
       else if hasDate fl \<and> \<not> hasString fl \<and> \<not> hasNumber fl \<and> \<not> hasBoolean fl
         then Inr ''TIMESTAMP WITH TIME ZONE''
       else if hasBoolean fl \<and> \<not> hasString fl \<and> \<not> hasNumber fl \<and> \<not> hasDate fl then Inr ''BOOLEAN''
       else if hasString fl then Inr ''VARCHAR(255)''
       else if hasNumber fl then Inr ''NUMERIC''
       else if hasBoolean fl then Inr ''BOOLEAN''
       else if hasDate fl then Inr ''TIMESTAMP WITH TIME ZONE''
       else Inr ''VARCHAR(255)'')"

text \<open>\<open>inferSequelizeType\<close> of \<open>server.js\<close>, with the Sequelize data types it returns.\<close>

datatype dataType = STRING | DECIMAL | BOOLEAN | BIGINT | DATE | TEXT

definition inferSequelizeType :: "host \<Rightarrow> string \<Rightarrow> jsrow list \<Rightarrow> error + dataType" where
  "inferSequelizeType h columnName data =
     bindE (scanRows h columnName data noFlags) (\<lambda>fl.
       if hasNumber fl \<and> \<not> hasString fl then Inr DECIMAL
       else if hasDate fl \<and> \<not> hasString fl \<and> \<not> hasNumber fl \<and> \<not> hasBoolean fl then Inr DATE
       else if hasBoolean fl \<and> \<not> hasString fl \<and> \<not> hasNumber fl \<and> \<not> hasDate fl then Inr BOOLEAN
       else if hasString fl \<and> hasNumber fl then Inr TEXT
       else if hasString fl then Inr STRING
       else if hasNumber fl then Inr DECIMAL
       else if hasBoolean fl then Inr BOOLEAN
       else if hasDate fl then Inr DATE
       else Inr STRING)"

section \<open>The decision table of the specification\<close>

text \<open>
  The four semantic types, the nine rules in their priority order, written from the
  specification's words, and the native type of the SQL engine for each semantic type.
\<close>

datatype semanticType = Numeric | Boolean | Timestamp | Text

definition decisionTable :: "flags \<Rightarrow> semanticType" where
  "decisionTable fl =
     (if hasNumber fl \<and> \<not> hasString fl then Numeric
      else if hasDate fl \<and> \<not> (hasString fl \<or> hasNumber fl \<or> hasBoolean fl) then Timestamp
      else if hasBoolean fl \<and> \<not> (hasString fl \<or> hasNumber fl \<or> hasDate fl) then Boolean
      else if hasString fl \<and> hasNumber fl then Text
      else if hasString fl then Text
      else if hasNumber fl then Numeric
      else if hasBoolean fl then Boolean
      else if hasDate fl then Timestamp
      else Text)"

fun nativeType :: "semanticType \<Rightarrow> string" where
  "nativeType Numeric = ''NUMERIC''"
| "nativeType Boolean = ''BOOLEAN''"
| "nativeType Timestamp = ''TIMESTAMP WITH TIME ZONE''"
| "nativeType Text = ''VARCHAR(255)''"

text \<open>Sequelize has two text types, \<open>STRING\<close> and \<open>TEXT\<close>; both hold the semantic type Text.\<close>

fun semanticOf :: "dataType \<Rightarrow> semanticType" where
  "semanticOf DECIMAL = Numeric"
| "semanticOf BIGINT = Numeric"
| "semanticOf BOOLEAN = Boolean"
| "semanticOf DATE = Timestamp"
| "semanticOf STRING = Text"
| "semanticOf TEXT = Text"

section \<open>Generated SQL\<close>

definition nl :: string where
  "nl = [CHR 0x0A]"

definition quoted :: "string \<Rightarrow> string" where
  \<open>quoted s = ''"'' @ s @ ''"''\<close>

definition literal :: "string \<Rightarrow> string" where
  "literal s = [CHR 0x27] @ s @ [CHR 0x27]"

text \<open>
  \<open>generateDynamicCreateTableSql(tableName, userData, inferSqlTypeFunction)\<close>. The two
  \<open>throw\<close> statements come first; the column list starts with the primary key, gets one
  entry per key of the first row, and ends with the two audit columns.
\<close>

definition columnDefinition ::
  "(string \<Rightarrow> jsrow list \<Rightarrow> error + string) \<Rightarrow> jsrow list \<Rightarrow> string \<Rightarrow> error + string" where
  "columnDefinition inferSqlTypeFunction userData feature =
     (let sanitizedFeature = sanitize feature
      in bindE (inferSqlTypeFunction feature userData) (\<lambda>sqlType.
           Inr (quoted sanitizedFeature @ '' '' @ sqlType @ '' '')))"

definition idColumn :: string where
  \<open>idColumn = ''"id" SERIAL PRIMARY KEY''\<close>

definition createdAtColumn :: string where
  \<open>createdAtColumn = ''"createdAt" TIMESTAMP WITH TIME ZONE DEFAULT CURRENT_TIMESTAMP''\<close>

definition updatedAtColumn :: string where
  \<open>updatedAtColumn = ''"updatedAt" TIMESTAMP WITH TIME ZONE DEFAULT CURRENT_TIMESTAMP''\<close>

definition createTableText :: "string \<Rightarrow> string list \<Rightarrow> string" where
  "createTableText tableName columns =
     ''CREATE TABLE IF NOT EXISTS '' @ quoted tableName @ '' ('' @ nl @ ''    ''
       @ join ('','' @ nl @ ''    '') columns @ nl @ '');''"

definition generateDynamicCreateTableSql ::
  "string \<Rightarrow> jsrow list \<Rightarrow> (string \<Rightarrow> jsrow list \<Rightarrow> error + string) \<Rightarrow> error + string" where
  "generateDynamicCreateTableSql tableName userData inferSqlTypeFunction =
     (if tableName = [] then Inl (Error ''Table name must be provided.'')
      else case userData of
        [] \<Rightarrow> Inl (Error ''User data is empty, cannot infer schema for dynamic table creation.'')
      | firstRow # _ \<Rightarrow>
          bindE (mapE (columnDefinition inferSqlTypeFunction userData) (Object_keys firstRow))
            (\<lambda>defs. Inr (createTableText tableName
                       ([idColumn] @ defs @ [createdAtColumn, updatedAtColumn]))))"

text \<open>
  \<open>generateDynamicInsertSql(tableName, userData)\<close>. \<open>renderValue\<close> is the callback that
  turns one cell into a literal, \<open>valuesClause\<close> the callback that builds one row's tuple.
\<close>

definition renderValue :: "host \<Rightarrow> jsval \<Rightarrow> error + string" where
  "renderValue h v =
     (if v = JNull \<or> v = JUndefined \<or> v = JString [] then Inr ''NULL''
      else if typeof v = ''string'' then bindE (replaceQuotes v) (\<lambda>s. Inr (literal s))
      else if typeof v = ''number'' \<or> typeof v = ''boolean'' then js_String h v
      else if instanceofDate v then bindE (toISOString h v) (\<lambda>s. Inr (literal s))
      else bindE (js_String h v) (\<lambda>text.
           bindE (replaceQuotes (JString text)) (\<lambda>s. Inr (literal s))))"

definition valuesClause :: "host \<Rightarrow> string list \<Rightarrow> jsrow \<Rightarrow> error + string" where
  "valuesClause h columnNames record =
     bindE (mapE (\<lambda>column. renderValue h (getProp h record column)) columnNames) (\<lambda>values.
       Inr (''('' @ join '', '' values @ '', CURRENT_TIMESTAMP, CURRENT_TIMESTAMP)''))"

definition insertColumnList :: "string list \<Rightarrow> string list" where
  \<open>insertColumnList columnNames =
     map (\<lambda>name. quoted (sanitize name)) columnNames @ [''"createdAt"'', ''"updatedAt"'']\<close>

definition insertText :: "string \<Rightarrow> string list \<Rightarrow> string list \<Rightarrow> string" where
  "insertText tableName sanitizedColumnNames valuesClauses =
     ''INSERT INTO '' @ quoted tableName @ '' ('' @ join '', '' sanitizedColumnNames @ '')'' @ nl
       @ ''VALUES'' @ nl @ join ('','' @ nl) valuesClauses @ '';''"

definition generateDynamicInsertSql :: "host \<Rightarrow> string \<Rightarrow> jsrow list \<Rightarrow> error + string" where
  "generateDynamicInsertSql h tableName userData =
     (if tableName = [] then Inl (Error ''Table name must be provided.'')
      else case userData of
        [] \<Rightarrow> Inr []
      | firstRecord # _ \<Rightarrow>
          (let columnNames = Object_keys firstRecord;
               sanitizedColumnNames = insertColumnList columnNames
           in bindE (mapE (valuesClause h columnNames) userData) (\<lambda>valuesClauses.
                Inr (insertText tableName sanitizedColumnNames valuesClauses))))"

text \<open>A row without the keys that are not in a given list, to speak about stray keys.\<close>

definition restrictRow :: "string list \<Rightarrow> jsrow \<Rightarrow> jsrow" where
  "restrictRow keys row = filter (\<lambda>kv. fst kv \<in> set keys) row"

section \<open>Value coercion\<close>

text \<open>
  The pre-processing step of \<open>server.js\<close>: \<open>coerceValue\<close> is the body of the inner loop
  for one cell, given the type inferred for its column; \<open>processRow\<close> is the callback of
  \<open>userData.map\<close>.
\<close>

definition coerceValue :: "host \<Rightarrow> dataType \<Rightarrow> jsval \<Rightarrow> error + jsval" where
  "coerceValue h inferredType v =
     (if v = JNull \<or> v = JUndefined \<or> v = JString [] then Inr JNull
      else if inferredType = DECIMAL then
        bindE (js_Number h v) (\<lambda>numValue.
          Inr (if isNaN numValue then JNull else JNumber numValue))
      else if inferredType = BOOLEAN then
        (if typeof v = ''string''
         then bindE (toLowerCase v) (\<lambda>l. Inr (JBoolean (l = ''true'')))
         else Inr (JBoolean (js_Boolean v)))
      else if inferredType = DATE then
        bindE (js_newDate h v) (\<lambda>dateValue.
          Inr (if isNaN (getTime dateValue) then JNull else JDate dateValue))
      else bindE (js_String h v) (\<lambda>text. Inr (JString text)))"

definition processRow :: "host \<Rightarrow> jsrow list \<Rightarrow> jsrow \<Rightarrow> error + jsrow" where
  "processRow h userData row =
     mapE (\<lambda>feature.
             (let v = getProp h row feature
              in bindE (inferSequelizeType h feature userData) (\<lambda>inferredType.
                   bindE (coerceValue h inferredType v) (\<lambda>v'. Inr (feature, v')))))
          (Object_keys row)"

definition processedUserData :: "host \<Rightarrow> jsrow list \<Rightarrow> error + jsrow list" where
  "processedUserData h userData = mapE (processRow h userData) userData"

section \<open>The database\<close>

text \<open>
  The durable state the handlers work on: the rows of the metadata table \<open>UploadedFile\<close>,
  and the table \<open>data\<close>, which is absent or has its catalog columns and its rows in the
  order of their ids. A stored row holds its cells by column name, the id among them, as
  the driver returns them.
\<close>

record uploadedFileRow =
  publicId :: string
  secureUrl :: string
  originalFilename :: string

record dataTableState =
  catalogColumns :: "string list"
  storedRows :: "jsrow list"

record database =
  UploadedFile :: "uploadedFileRow list"
  dataTable :: "dataTableState option"

text \<open>
  What the collaborators do in one request is the \<open>world\<close>: which generated statements the
  SQL engine accepts; the rows it keeps for the rows an insert carries, given the rows already
  there (with the id it generates, and each cell in the form the driver returns it);
  the cell the driver returns for \<open>COUNT(*)\<close>; whether the blob store deletes and what it
  returns for an upload (public id and URL); whether the file can be fetched back; what the
  analysis service answers; and, for the Sequelize handlers of \<open>server.js\<close>, whether \<open>sync\<close>
  and \<open>bulkCreate\<close> succeed.
\<close>

record world =
  sqlAccepts :: "string \<Rightarrow> bool"
  engineStores :: "jsrow list \<Rightarrow> jsrow list \<Rightarrow> jsrow list"
  countCell :: "nat \<Rightarrow> jsval"
  cloudinaryDestroy :: bool
  cloudinaryUpload :: "(string \<times> string) option"
  axiosGet :: bool
  aiService :: "string option"
  syncAccepts :: bool
  bulkCreateAccepts :: bool

text \<open>
  Each SQL statement of the handlers is an operation on the database. A statement the engine
  rejects raises \<open>SqlError\<close> and changes nothing.
\<close>

definition selectUploadedFile :: "database \<Rightarrow> uploadedFileRow list" where
  "selectUploadedFile db = filter (\<lambda>f. publicId f = ''data.csv'') (UploadedFile db)"

definition deleteUploadedFile :: "database \<Rightarrow> database" where
  "deleteUploadedFile db =
     db\<lparr>UploadedFile := filter (\<lambda>f. publicId f \<noteq> ''data.csv'') (UploadedFile db)\<rparr>"

definition insertUploadedFile :: "uploadedFileRow \<Rightarrow> database \<Rightarrow> error + database" where
  "insertUploadedFile f db =
     (if publicId f \<in> set (map publicId (UploadedFile db))
      then Inl (SqlError ''duplicate key value violates unique constraint'')
      else Inr (db\<lparr>UploadedFile := UploadedFile db @ [f]\<rparr>))"

definition dataTableExists :: "database \<Rightarrow> bool" where
  "dataTableExists db = (dataTable db \<noteq> None)"

definition dropTableIfExists :: "database \<Rightarrow> database" where
  "dropTableIfExists db = db\<lparr>dataTable := None\<rparr>"

definition executeCreateTable ::
  "world \<Rightarrow> string \<Rightarrow> string list \<Rightarrow> database \<Rightarrow> error + database" where
  "executeCreateTable w statement cols db =
     (if \<not> sqlAccepts w statement then Inl (SqlError statement)
      else case dataTable db of
        None \<Rightarrow> Inr (db\<lparr>dataTable := Some \<lparr>catalogColumns = cols, storedRows = []\<rparr>\<rparr>)
      | Some t \<Rightarrow> Inr db)"

definition executeInsert ::
  "world \<Rightarrow> string \<Rightarrow> jsrow list \<Rightarrow> database \<Rightarrow> error + database" where
  "executeInsert w statement rows db =
     (if \<not> sqlAccepts w statement then Inl (SqlError statement)
      else case dataTable db of
        None \<Rightarrow> Inl (SqlError ''relation does not exist'')
      | Some t \<Rightarrow>
          Inr (db\<lparr>dataTable :=
                    Some (t\<lparr>storedRows := storedRows t @ engineStores w (storedRows t) rows\<rparr>)\<rparr>))"

text \<open>
  What the two generated statements stand for: the columns created, and the cells the insert
  carries for each row, by column.
\<close>

definition createdColumns :: "jsrow list \<Rightarrow> string list" where
  "createdColumns userData =
     (case userData of
        [] \<Rightarrow> []
      | firstRow # _ \<Rightarrow> [''id''] @ map sanitize (Object_keys firstRow) @ [''createdAt'', ''updatedAt''])"

definition insertedRows :: "host \<Rightarrow> jsrow list \<Rightarrow> jsrow list" where
  "insertedRows h userData =
     (case userData of
        [] \<Rightarrow> []
      | firstRecord # _ \<Rightarrow>
          map (\<lambda>record. map (\<lambda>column. (sanitize column, getProp h record column))
                             (Object_keys firstRecord))
              userData)"

text \<open>The catalog query, the count and the page query of the reader.\<close>

definition catalogColumnsOf :: "database \<Rightarrow> string \<Rightarrow> string list" where
  "catalogColumnsOf db tableName =
     (if tableName = ''data''
      then (case dataTable db of None \<Rightarrow> [] | Some t \<Rightarrow> catalogColumns t)
      else [])"

definition countRows :: "world \<Rightarrow> database \<Rightarrow> error + jsval" where
  "countRows w db =
     (case dataTable db of
        None \<Rightarrow> Inl (SqlError ''relation does not exist'')
      | Some t \<Rightarrow> Inr (countCell w (length (storedRows t))))"

definition projectRow :: "string list \<Rightarrow> jsrow \<Rightarrow> jsrow" where
  "projectRow cols row = filter (\<lambda>kv. fst kv \<in> set cols) row"

text \<open>
  The handlers write the offset and the limit, which are doubles, into the text of the
  query. \<open>OFFSET\<close> and \<open>LIMIT\<close> take a 64-bit integer: the engine rejects a negative
  number, a number above \<open>2^63 - 1\<close>, and the texts \<open>Infinity\<close> and \<open>NaN\<close>. A fraction,
  which the handlers never produce, it rounds.
\<close>

definition sqlBigint :: "jsnum \<Rightarrow> error + nat" where
  "sqlBigint n =
     (case n of
        Num r \<Rightarrow>
          (let k = (if 0 \<le> r then \<lfloor>r + 1 / 2\<rfloor> else - \<lfloor>- r + 1 / 2\<rfloor>)
           in if k < 0 then Inl (SqlError ''OFFSET and LIMIT must not be negative'')
              else if 9223372036854775807 < k then Inl (SqlError ''bigint out of range'')
              else Inr (nat k))
      | _ \<Rightarrow> Inl (SqlError ''column does not exist''))"

definition selectPage ::
  "database \<Rightarrow> string list \<Rightarrow> jsnum \<Rightarrow> jsnum \<Rightarrow> error + jsrow list" where
  "selectPage db cols offset limit =
     (case dataTable db of
        None \<Rightarrow> Inl (SqlError ''relation does not exist'')
      | Some t \<Rightarrow>
          if filter (\<lambda>c. c \<notin> set (catalogColumns t)) cols \<noteq> []
            then Inl (SqlError ''column does not exist'')
          else bindE (sqlBigint offset) (\<lambda>skip.
               bindE (sqlBigint limit) (\<lambda>size.
                 Inr (map (projectRow cols) (take size (drop skip (storedRows t)))))))"

section \<open>Handlers\<close>

text \<open>
  A handler runs statements one after the other on a state; a statement that raises ends
  the \<open>try\<close> block with the state as it is at that point.
\<close>

type_synonym ('s, 'a) action = "'s \<Rightarrow> (error + 'a) \<times> 's"

definition returnA :: "'a \<Rightarrow> ('s, 'a) action" where
  "returnA x st = (Inr x, st)"

definition throwA :: "error \<Rightarrow> ('s, 'a) action" where
  "throwA e st = (Inl e, st)"

definition bindA :: "('s, 'a) action \<Rightarrow> ('a \<Rightarrow> ('s, 'b) action) \<Rightarrow> ('s, 'b) action" where
  "bindA m f st = (case m st of (Inl e, st') \<Rightarrow> (Inl e, st') | (Inr x, st') \<Rightarrow> f x st')"

definition liftE :: "error + 'a \<Rightarrow> ('s, 'a) action" where
  "liftE r st = (r, st)"

definition query :: "('s \<Rightarrow> 'a) \<Rightarrow> ('s, 'a) action" where
  "query f st = (Inr (f st), st)"

definition execute :: "('s \<Rightarrow> error + 's) \<Rightarrow> ('s, unit) action" where
  "execute f st = (case f st of Inl e \<Rightarrow> (Inl e, st) | Inr st' \<Rightarrow> (Inr (), st'))"

definition require :: "bool \<Rightarrow> error \<Rightarrow> ('s, unit) action" where
  "require ok e = (if ok then returnA () else throwA e)"

text \<open>
  Responses: a status code and a body. The body of a page holds the rows, the last page and
  the total count, which is the cell the driver returned for the count.
\<close>

datatype body =
    Message string
  | ErrorBody error
  | StatusBody bool
  | PageBody "jsrow list" jsnum jsval
  | AnalysisBody string

type_synonym response = "nat \<times> body"

text \<open>An uploaded file: its name and the rows the CSV parser yields for its bytes.\<close>

record uploadedCsv =
  originalname :: string
  parsedRows :: "jsrow list"

subsection \<open>The serverless handlers\<close>

text \<open>\<open>GET /api/check-table\<close>.\<close>

definition api_check_table :: "database \<Rightarrow> response" where
  "api_check_table db =
     (let uploadedFile = selectUploadedFile db
      in if uploadedFile \<noteq> [] then (200, StatusBody True) else (200, StatusBody False))"

text \<open>
  \<open>GET /api/data\<close>. The query parameters are absent or strings; \<open>parseInt\<close> of an absent
  parameter is \<open>NaN\<close>, and \<open>parseInt(x) || d\<close> takes the default for \<open>NaN\<close> and for 0.
\<close>

record pageQuery =
  query_page :: "string option"
  query_limit :: "string option"

definition parseIntQuery :: "host \<Rightarrow> string option \<Rightarrow> jsnum" where
  "parseIntQuery h q = (case q of None \<Rightarrow> NaN | Some s \<Rightarrow> parseIntOfString h s)"

definition orDefault :: "jsnum \<Rightarrow> jsnum \<Rightarrow> jsnum" where
  "orDefault n d = (if n = NaN \<or> n = Num 0 then d else n)"

definition pageNumber :: "host \<Rightarrow> pageQuery \<Rightarrow> jsnum" where
  "pageNumber h q = orDefault (parseIntQuery h (query_page q)) (Num 1)"

definition pageSize :: "host \<Rightarrow> pageQuery \<Rightarrow> jsnum" where
  "pageSize h q = orDefault (parseIntQuery h (query_limit q)) (Num 10)"

definition pageOffset :: "host \<Rightarrow> jsnum \<Rightarrow> jsnum \<Rightarrow> jsnum" where
  "pageOffset h page limit = numTimes h (numMinus h page (Num 1)) limit"

definition lastPageOf :: "host \<Rightarrow> jsval \<Rightarrow> jsnum \<Rightarrow> error + jsnum" where
  "lastPageOf h count limit =
     bindE (js_Number h count) (\<lambda>c. Inr (Math_ceil (numDivide h c limit)))"

definition generatePaginatedDataQuery ::
  "world \<Rightarrow> database \<Rightarrow> string \<Rightarrow> jsnum \<Rightarrow> jsnum \<Rightarrow> error + (jsval \<times> jsrow list)" where
  "generatePaginatedDataQuery w db tableName offset limit =
     (if tableName = [] then Inl (Error ''Table name must be provided.'')
      else
        (let columnsData = catalogColumnsOf db tableName;
             columnsToExclude = [''createdAt'', ''updatedAt''];
             desiredColumns = filter (\<lambda>col. col \<notin> set columnsToExclude) columnsData
         in if desiredColumns = []
            then Inl (Error ''No selectable columns found for table after exclusion.'')
            else bindE (countRows w db) (\<lambda>count.
                 bindE (selectPage db (map sanitize desiredColumns) offset limit) (\<lambda>rows.
                   Inr (count, rows)))))"

definition api_data :: "host \<Rightarrow> world \<Rightarrow> database \<Rightarrow> pageQuery \<Rightarrow> response" where
  "api_data h w db q =
     (if \<not> dataTableExists db
      then (404, Message ''Data table not found. Please upload a CSV first.'')
      else
        (let page = pageNumber h q;
             limit = pageSize h q;
             offset = pageOffset h page limit
         in case generatePaginatedDataQuery w db ''data'' offset limit of
              Inl e \<Rightarrow> (500, ErrorBody e)
            | Inr (count, rows) \<Rightarrow>
                (case lastPageOf h count limit of
                   Inl e \<Rightarrow> (500, ErrorBody e)
                 | Inr lastPage \<Rightarrow> (200, PageBody rows lastPage count))))"

text \<open>\<open>POST /api/upload\<close>: the eviction of the previous dataset, then the \<open>try\<close> block.\<close>

definition evictExisting :: "world \<Rightarrow> (database, unit) action" where
  "evictExisting w =
     bindA (query selectUploadedFile) (\<lambda>existingFile.
       if existingFile \<noteq> [] then
         bindA (query dataTableExists) (\<lambda>tableThere.
         bindA (if tableThere then execute (\<lambda>db. Inr (dropTableIfExists db)) else returnA ()) (\<lambda>_.
         bindA (require (cloudinaryDestroy w) (Error ''blob store: destroy failed'')) (\<lambda>_.
           execute (\<lambda>db. Inr (deleteUploadedFile db)))))
       else returnA ())"

definition uploadTry :: "host \<Rightarrow> world \<Rightarrow> uploadedCsv \<Rightarrow> (database, response) action" where
  "uploadTry h w file =
     (let userData = parsedRows file in
     bindA (evictExisting w) (\<lambda>_.
     bindA (liftE (case cloudinaryUpload w of
                     None \<Rightarrow> Inl (Error ''blob store: upload failed'')
                   | Some r \<Rightarrow> Inr r)) (\<lambda>cloudinaryUploadResult.
     bindA (execute (insertUploadedFile
              \<lparr>publicId = fst cloudinaryUploadResult,
               secureUrl = snd cloudinaryUploadResult,
               originalFilename = originalname file\<rparr>)) (\<lambda>_.
     bindA (query selectUploadedFile) (\<lambda>selected.
     bindA (liftE (case selected of
                     [] \<Rightarrow> Inl (TypeError ''Cannot read properties of undefined'')
                   | newUploadedFile # _ \<Rightarrow> Inr newUploadedFile)) (\<lambda>newUploadedFile.
     bindA (require (axiosGet w) (Error ''fetch of the stored file failed'')) (\<lambda>_.
     bindA (liftE (case aiService w of
                     None \<Rightarrow> Inl (Error ''analysis service failed'')
                   | Some d \<Rightarrow> Inr d)) (\<lambda>response.
     bindA (liftE (generateDynamicCreateTableSql ''data'' userData (inferSqlType h))) (\<lambda>createTableSql.
     bindA (execute (executeCreateTable w createTableSql (createdColumns userData))) (\<lambda>_.
     bindA (liftE (generateDynamicInsertSql h ''data'' userData)) (\<lambda>insertSql.
     bindA (execute (executeInsert w insertSql (insertedRows h userData))) (\<lambda>_.
       returnA (200, AnalysisBody response)))))))))))))"

definition api_upload ::
  "host \<Rightarrow> world \<Rightarrow> uploadedCsv option \<Rightarrow> database \<Rightarrow> response \<times> database" where
  "api_upload h w file db =
     (case file of
        None \<Rightarrow> ((400, Message ''No CSV file uploaded''), db)
      | Some f \<Rightarrow>
          (case uploadTry h w f db of
             (Inl e, db') \<Rightarrow> ((500, ErrorBody e), db')
           | (Inr r, db') \<Rightarrow> (r, db')))"

subsection \<open>The Sequelize handlers of \<open>server.js\<close>\<close>

text \<open>
  \<open>server.js\<close> keeps the model of the table in the variable \<open>DataTable\<close> of the process:
  undefined when the process starts, set by an upload (here to the attributes of the model),
  and lost when the process stops. The database outlives the process.
\<close>

record server =
  DataTable :: "string list option"
  durable :: database

definition modelAttributes :: "string list \<Rightarrow> string list" where
  "modelAttributes features = [''id''] @ features @ [''createdAt'', ''updatedAt'']"

definition server_api_check_table :: "server \<Rightarrow> response" where
  "server_api_check_table st =
     (let tableExists = dataTableExists (durable st)
      in if tableExists then (200, StatusBody True) else (200, StatusBody False))"

definition findAndCountAll ::
  "database \<Rightarrow> string list \<Rightarrow> jsnum \<Rightarrow> jsnum \<Rightarrow> error + (jsval \<times> jsrow list)" where
  "findAndCountAll db attributes offset limit =
     (case dataTable db of
        None \<Rightarrow> Inl (SqlError ''relation does not exist'')
      | Some t \<Rightarrow>
          bindE (selectPage db (filter (\<lambda>a. a \<notin> set [''createdAt'', ''updatedAt'']) attributes)
                   offset limit) (\<lambda>rows.
            Inr (JNumber (Num (of_nat (length (storedRows t)))), rows)))"

definition server_api_data :: "host \<Rightarrow> server \<Rightarrow> pageQuery \<Rightarrow> response" where
  "server_api_data h st q =
     (case DataTable st of
        None \<Rightarrow> (404, Message ''Data table not found. Please upload a CSV first.'')
      | Some attributes \<Rightarrow>
          (let page = pageNumber h q;
               limit = pageSize h q;
               offset = pageOffset h page limit
           in case findAndCountAll (durable st) attributes offset limit of
                Inl e \<Rightarrow> (500, Message ''Failed to fetch data'')
              | Inr (count, rows) \<Rightarrow>
                  (case lastPageOf h count limit of
                     Inl e \<Rightarrow> (500, Message ''Failed to fetch data'')
                   | Inr lastPage \<Rightarrow> (200, PageBody rows lastPage count))))"

definition sequelizeSync :: "world \<Rightarrow> server \<Rightarrow> error + server" where
  "sequelizeSync w st =
     (if \<not> syncAccepts w then Inl (SqlError ''sync'')
      else case DataTable st of
        None \<Rightarrow> Inr st
      | Some attributes \<Rightarrow>
          (case dataTable (durable st) of
             None \<Rightarrow>
               Inr (st\<lparr>durable := (durable st)
                      \<lparr>dataTable := Some \<lparr>catalogColumns = attributes, storedRows = []\<rparr>\<rparr>\<rparr>)
           | Some t \<Rightarrow> Inr st))"

definition bulkCreate :: "world \<Rightarrow> jsrow list \<Rightarrow> server \<Rightarrow> error + server" where
  "bulkCreate w rows st =
     (if \<not> bulkCreateAccepts w then Inl (SqlError ''bulkCreate'')
      else case dataTable (durable st) of
        None \<Rightarrow> Inl (SqlError ''relation does not exist'')
      | Some t \<Rightarrow>
          Inr (st\<lparr>durable := (durable st)
                 \<lparr>dataTable :=
                    Some (t\<lparr>storedRows := storedRows t @ engineStores w (storedRows t) rows\<rparr>)\<rparr>\<rparr>))"

definition dropDataTable :: "server \<Rightarrow> server" where
  "dropDataTable st = st\<lparr>durable := dropTableIfExists (durable st)\<rparr>"

text \<open>
  \<open>POST /api/upload\<close> of \<open>server.js\<close>. The insert has a \<open>try\<close> of its own, whose
  \<open>catch\<close> drops the table and answers 500.
\<close>

definition serverUploadTry :: "host \<Rightarrow> world \<Rightarrow> uploadedCsv \<Rightarrow> (server, response) action" where
  "serverUploadTry h w file =
     (let userData = parsedRows file in
     bindA (liftE (case aiService w of
                     None \<Rightarrow> Inl (Error ''analysis service failed'')
                   | Some d \<Rightarrow> Inr d)) (\<lambda>response.
     bindA (liftE (case userData of
                     [] \<Rightarrow> Inl (TypeError ''Cannot convert undefined or null to object'')
                   | firstRow # _ \<Rightarrow> Inr (Object_keys firstRow))) (\<lambda>features.
     bindA (liftE (mapE (\<lambda>feature. inferSequelizeType h feature userData) features)) (\<lambda>types.
     bindA (execute (\<lambda>st. Inr (st\<lparr>DataTable := Some (modelAttributes features)\<rparr>))) (\<lambda>_.
     bindA (execute (sequelizeSync w)) (\<lambda>_.
     bindA (liftE (processedUserData h userData)) (\<lambda>processed.
       (\<lambda>st. case bulkCreate w processed st of
                Inl e \<Rightarrow> (Inr (500, ErrorBody e), dropDataTable st)
              | Inr st' \<Rightarrow> (Inr (200, AnalysisBody response), st')))))))))"

definition server_api_upload ::
  "host \<Rightarrow> world \<Rightarrow> uploadedCsv option \<Rightarrow> server \<Rightarrow> response \<times> server" where
  "server_api_upload h w file st =
     (case file of
        None \<Rightarrow> ((400, Message ''No CSV file uploaded''), st)
      | Some f \<Rightarrow>
          (case serverUploadTry h w f st of
             (Inl e, st') \<Rightarrow> ((500, ErrorBody e), st')
           | (Inr r, st') \<Rightarrow> (r, st')))"

section \<open>Examples\<close>

text \<open>
  The values of the built-ins on the strings, numbers and times the examples below use; on
  these they are the values of ECMAScript. The numbers the examples compute with are doubles,
  so their rounding is the identity.
\<close>

definition nativeFunction :: "string \<Rightarrow> jsval" where
  "nativeFunction name = JFunction (''function '' @ name @ ''() { [native code] }'')"

definition exampleHost :: host where
  "exampleHost =
     \<lparr>NumberOfString = (\<lambda>s. if s = ''5'' then Num 5 else if s = ''10'' then Num 10
                             else if s = ''25'' then Num 25 else NaN),
      parseFloatOfString = (\<lambda>s. if s = ''5'' then Num 5 else if s = ''10'' then Num 10
                             else if s = ''25'' then Num 25 else NaN),
      parseIntOfString = (\<lambda>s. if s = ''3'' then Num 3 else if s = ''10'' then Num 10 else NaN),
      DateOfString = (\<lambda>s. if s = ''2023-01-01'' then TimeValue 1672531200000 else InvalidDate),
      StringOfNumber = (\<lambda>r. if r = 5 then ''5'' else if r = 10 then ''10'' else ''0''),
      StringOfDate = (\<lambda>t. if t = 1672531200000
                           then ''Sun Jan 01 2023 00:00:00 GMT+0000 (Coordinated Universal Time)''
                           else ''Thu Jan 01 1970 00:00:00 GMT+0000 (Coordinated Universal Time)''),
      toISOStringOfTime = (\<lambda>t. if t = 1672531200000 then ''2023-01-01T00:00:00.000Z''
                                else ''1970-01-01T00:00:00.000Z''),
      toDouble = Num,
      ObjectPrototype =
        (\<lambda>key. if key = ''constructor'' then Some (nativeFunction ''Object'')
                else if key \<in> set [''toString'', ''toLocaleString'', ''valueOf'', ''hasOwnProperty'',
                                    ''isPrototypeOf'', ''propertyIsEnumerable'', ''__defineGetter__'',
                                    ''__defineSetter__'', ''__lookupGetter__'', ''__lookupSetter__'']
                  then Some (nativeFunction key)
                else if key = ''__proto__'' then Some (JObject (Some ''[object Object]''))
                else None)\<rparr>"

text \<open>
  The empty database, and a request in which every collaborator answers and the SQL engine
  accepts the generated \<open>CREATE TABLE\<close> and rejects the generated \<open>INSERT\<close>, as PostgreSQL
  does when a column inferred as \<open>NUMERIC\<close> also holds a boolean. Its driver returns the
  count as a decimal string; a row the engine keeps gets the next id, a number.
\<close>

definition emptyDatabase :: database where
  "emptyDatabase = \<lparr>UploadedFile = [], dataTable = None\<rparr>"

fun decimal :: "nat \<Rightarrow> string" where
  "decimal n =
     (if n < 10 then [char_of (48 + n)] else decimal (n div 10) @ [char_of (48 + n mod 10)])"

definition exampleWorld :: world where
  "exampleWorld =
     \<lparr>sqlAccepts = (\<lambda>statement. take 6 statement = ''CREATE''),
      engineStores =
        (\<lambda>existing rows.
           map2 (\<lambda>i row. (''id'', JNumber (Num (of_nat i))) # row)
             [length existing + 1 ..< length existing + 1 + length rows] rows),
      countCell = (\<lambda>n. JString (decimal n)),
      cloudinaryDestroy = True,
      cloudinaryUpload = Some (''data.csv'', ''https://res.cloudinary.com/demo/raw/upload/data.csv''),
      axiosGet = True,
      aiService = Some ''{}'',
      syncAccepts = True,
      bulkCreateAccepts = False\<rparr>"

section \<open>Type inference follows the decision table\<close>

lemma scanValue_total: "\<exists>fl'. scanValue h v fl = Inr fl'"
  by (cases v)
     (simp_all add: scanValue_def toLowerCase_def stringMethod_def js_parseFloat_def bindE_def
        Let_def)

lemma scanRows_total: "\<exists>fl'. scanRows h c data fl = Inr fl'"
proof (induction data arbitrary: fl)
  case Nil
  show ?case by simp
next
  case (Cons row data)
  obtain fl1 where "scanValue h (getProp h row c) fl = Inr fl1"
    using scanValue_total by blast
  then show ?case using Cons.IH [of fl1] by (simp add: bindE_def)
qed

lemma inferSqlType_table:
  "scanRows h c data noFlags = Inr fl \<Longrightarrow>
   inferSqlType h c data = Inr (nativeType (decisionTable fl))"
  by (simp add: inferSqlType_def bindE_def decisionTable_def)

lemma inferSequelizeType_table:
  "scanRows h c data noFlags = Inr fl \<Longrightarrow>
   \<exists>t. inferSequelizeType h c data = Inr t \<and> semanticOf t = decisionTable fl"
  by (simp add: inferSequelizeType_def bindE_def decisionTable_def)

lemma inferSqlType_total: "\<exists>t. inferSqlType h c data = Inr t"
  using scanRows_total [of h c data noFlags] inferSqlType_table by blast

lemma inferSequelizeType_total: "\<exists>t. inferSequelizeType h c data = Inr t"
  using scanRows_total [of h c data noFlags] inferSequelizeType_table by blast

text \<open>
  Claim C2. For every column name and every row set the scan of the column ends with four
  flags, and the type each inference function returns is the one the nine-rule decision
  table gives for these flags: \<open>inferSqlType\<close> returns its native SQL type,
  \<open>inferSequelizeType\<close> a Sequelize type that holds it. In particular a number flag without
  a string flag gives Numeric whatever the boolean and date flags are, string and number
  flags together give Text, and no flag at all gives Text.
\<close>

theorem inferred_type_is_decision_table:
  "\<exists>fl. scanRows h columnName data noFlags = Inr fl
     \<and> inferSqlType h columnName data = Inr (nativeType (decisionTable fl))
     \<and> (\<exists>t. inferSequelizeType h columnName data = Inr t \<and> semanticOf t = decisionTable fl)
     \<and> (hasNumber fl \<and> \<not> hasString fl \<longrightarrow>
          decisionTable fl = Numeric \<and> inferSqlType h columnName data = Inr ''NUMERIC'')
     \<and> (hasString fl \<and> hasNumber fl \<longrightarrow>
          decisionTable fl = Text \<and> inferSqlType h columnName data = Inr ''VARCHAR(255)'')
     \<and> (\<not> hasString fl \<and> \<not> hasNumber fl \<and> \<not> hasBoolean fl \<and> \<not> hasDate fl \<longrightarrow>
          decisionTable fl = Text \<and> inferSqlType h columnName data = Inr ''VARCHAR(255)'')"
proof -
  obtain fl where fl: "scanRows h columnName data noFlags = Inr fl"
    using scanRows_total by blast
  note sql = inferSqlType_table [OF fl]
  have "decisionTable fl = Numeric \<and> inferSqlType h columnName data = Inr ''NUMERIC''"
    if "hasNumber fl \<and> \<not> hasString fl"
    using that sql by (simp add: decisionTable_def)
  moreover have "decisionTable fl = Text \<and> inferSqlType h columnName data = Inr ''VARCHAR(255)''"
    if "hasString fl \<and> hasNumber fl"
    using that sql by (simp add: decisionTable_def)
  moreover have "decisionTable fl = Text \<and> inferSqlType h columnName data = Inr ''VARCHAR(255)''"
    if "\<not> hasString fl \<and> \<not> hasNumber fl \<and> \<not> hasBoolean fl \<and> \<not> hasDate fl"
    using that sql by (simp add: decisionTable_def)
  ultimately show ?thesis
    using fl sql inferSequelizeType_table [OF fl] by blast
qed

lemma example_mixed_flags:
  "scanRows exampleHost ''x'' [[(''x'', JString ''5'')], [(''x'', JString ''abc'')]] noFlags
     = Inr \<lparr>hasString = True, hasNumber = True, hasBoolean = False, hasDate = False\<rparr>"
  by code_simp

theorem inferred_type_is_decision_table_witness:
  "inferSqlType exampleHost ''x'' [[(''x'', JString ''5'')], [(''x'', JString ''abc'')]]
     = Inr ''VARCHAR(255)''
   \<and> inferSequelizeType exampleHost ''x'' [[(''x'', JString ''5'')], [(''x'', JString ''abc'')]]
     = Inr TEXT"
proof -
  obtain fl where
    scan: "scanRows exampleHost ''x'' [[(''x'', JString ''5'')], [(''x'', JString ''abc'')]] noFlags
       = Inr fl"
    and mixed: "hasString fl \<and> hasNumber fl \<longrightarrow>
       decisionTable fl = Text
       \<and> inferSqlType exampleHost ''x'' [[(''x'', JString ''5'')], [(''x'', JString ''abc'')]]
           = Inr ''VARCHAR(255)''"
    using inferred_type_is_decision_table
      [of exampleHost "''x''" "[[(''x'', JString ''5'')], [(''x'', JString ''abc'')]]"]
    by blast
  have fl: "fl = \<lparr>hasString = True, hasNumber = True, hasBoolean = False, hasDate = False\<rparr>"
    using scan unfolding example_mixed_flags by simp
  have "inferSqlType exampleHost ''x'' [[(''x'', JString ''5'')], [(''x'', JString ''abc'')]]
     = Inr ''VARCHAR(255)''"
    using mixed fl by simp
  moreover have
    "inferSequelizeType exampleHost ''x'' [[(''x'', JString ''5'')], [(''x'', JString ''abc'')]]
     = Inr TEXT"
    by code_simp
  ultimately show ?thesis by simp
qed

section \<open>The table-creation statement\<close>

lemma mapE_total:
  "(\<And>x. x \<in> set xs \<Longrightarrow> \<exists>y. f x = Inr y) \<Longrightarrow> \<exists>ys. mapE f xs = Inr ys"
proof (induction xs)
  case Nil
  show ?case by simp
next
  case (Cons x xs)
  obtain y where "f x = Inr y" using Cons.prems by auto
  moreover obtain ys where "mapE f xs = Inr ys" using Cons by auto
  ultimately show ?case by (simp add: bindE_def)
qed

lemma mapE_Inr_length: "mapE f xs = Inr ys \<Longrightarrow> length ys = length xs"
  by (induction xs arbitrary: ys) (auto simp: bindE_def split: sum.splits)

lemma mapE_Inr_nth:
  "mapE f xs = Inr ys \<Longrightarrow> i < length xs \<Longrightarrow> f (xs ! i) = Inr (ys ! i)"
proof (induction xs arbitrary: ys i)
  case Nil
  then show ?case by simp
next
  case (Cons x xs)
  then show ?case
    by (cases i) (auto simp: bindE_def split: sum.splits)
qed

lemma mapE_columnDefinition:
  "mapE (\<lambda>feature. infer feature userData) keys = Inr types \<Longrightarrow>
   mapE (columnDefinition infer userData) keys =
     Inr (map2 (\<lambda>feature sqlType. quoted (sanitize feature) @ '' '' @ sqlType @ '' '') keys types)"
  by (induction keys arbitrary: types)
     (auto simp: bindE_def columnDefinition_def split: sum.splits)

lemma isWordChar_class_all:
  "\<forall>c. isWordChar c = (c \<in> set ''abcdefghijklmnopqrstuvwxyzABCDEFGHIJKLMNOPQRSTUVWXYZ0123456789_'')"
  by code_simp

lemma isWordChar_class: "isWordChar c = (c \<in> set ''abcdefghijklmnopqrstuvwxyzABCDEFGHIJKLMNOPQRSTUVWXYZ0123456789_'')"
  using isWordChar_class_all by (rule spec)

lemma sanitize_chars:
  "length (sanitize name) = length name \<and>
   (\<forall>i < length name.
      sanitize name ! i = (if name ! i \<in> set ''abcdefghijklmnopqrstuvwxyzABCDEFGHIJKLMNOPQRSTUVWXYZ0123456789_'' then name ! i else CHR ''_''))"
  unfolding sanitize_def isWordChar_class by simp

lemma mapE_columnDefinition_text:
  \<open>mapE (\<lambda>feature. infer feature userData) keys = Inr types \<Longrightarrow>
   mapE (columnDefinition infer userData) keys =
     Inr (map2 (\<lambda>feature sqlType. ''"'' @ sanitize feature @ ''" '' @ sqlType @ '' '') keys types)\<close>
  by (induction keys arbitrary: types)
     (auto simp: bindE_def columnDefinition_def quoted_def split: sum.splits)

text \<open>
  Claim C6. For a table name and a non-empty row list, the generator returns the statement
  \<open>CREATE TABLE IF NOT EXISTS\<close> whose column list is, in this order: the auto-incrementing
  primary key \<open>"id" SERIAL PRIMARY KEY\<close>; one column for each key of the first row, in the
  order of the keys, named by the key with every character outside \<open>[A-Za-z0-9_]\<close> replaced
  by \<open>_\<close> and typed by the inference function on that key; the two audit columns
  \<open>"createdAt"\<close> and \<open>"updatedAt"\<close>, of type \<open>TIMESTAMP WITH TIME ZONE\<close> with default
  \<open>CURRENT_TIMESTAMP\<close>. There is one column per key, so keys that collide after the
  replacement give the same column name twice.
\<close>

theorem create_table_statement:
  assumes \<open>tableName \<noteq> []\<close> and \<open>userData = firstRow # rest\<close>
  shows \<open>\<exists>types.
      length types = length (Object_keys firstRow)
    \<and> (\<forall>i < length (Object_keys firstRow).
          inferSqlType h (Object_keys firstRow ! i) userData = Inr (types ! i))
    \<and> generateDynamicCreateTableSql tableName userData (inferSqlType h) =
        Inr (''CREATE TABLE IF NOT EXISTS "'' @ tableName @ ''" ('' @ [CHR 0x0A] @ ''    ''
             @ join ('','' @ [CHR 0x0A] @ ''    '')
                 ([''"id" SERIAL PRIMARY KEY'']
                  @ map2 (\<lambda>feature sqlType. ''"'' @ sanitize feature @ ''" '' @ sqlType @ '' '')
                      (Object_keys firstRow) types
                  @ [''"createdAt" TIMESTAMP WITH TIME ZONE DEFAULT CURRENT_TIMESTAMP'',
                     ''"updatedAt" TIMESTAMP WITH TIME ZONE DEFAULT CURRENT_TIMESTAMP''])
             @ [CHR 0x0A] @ '');'')
    \<and> (\<forall>feature \<in> set (Object_keys firstRow).
          length (sanitize feature) = length feature
        \<and> (\<forall>i < length feature.
              sanitize feature ! i =
                (if feature ! i \<in> set ''abcdefghijklmnopqrstuvwxyzABCDEFGHIJKLMNOPQRSTUVWXYZ0123456789_''
                 then feature ! i else CHR ''_'')))\<close>
proof -
  obtain types where
    types: "mapE (\<lambda>feature. inferSqlType h feature userData) (Object_keys firstRow) = Inr types"
    using mapE_total [of "Object_keys firstRow" "\<lambda>feature. inferSqlType h feature userData"]
      inferSqlType_total by blast
  have "length types = length (Object_keys firstRow)"
    using types by (rule mapE_Inr_length)
  moreover have "\<forall>i < length (Object_keys firstRow).
      inferSqlType h (Object_keys firstRow ! i) userData = Inr (types ! i)"
    using mapE_Inr_nth [OF types] by blast
  moreover have \<open>generateDynamicCreateTableSql tableName userData (inferSqlType h) =
        Inr (''CREATE TABLE IF NOT EXISTS "'' @ tableName @ ''" ('' @ [CHR 0x0A] @ ''    ''
             @ join ('','' @ [CHR 0x0A] @ ''    '')
                 ([''"id" SERIAL PRIMARY KEY'']
                  @ map2 (\<lambda>feature sqlType. ''"'' @ sanitize feature @ ''" '' @ sqlType @ '' '')
                      (Object_keys firstRow) types
                  @ [''"createdAt" TIMESTAMP WITH TIME ZONE DEFAULT CURRENT_TIMESTAMP'',
                     ''"updatedAt" TIMESTAMP WITH TIME ZONE DEFAULT CURRENT_TIMESTAMP''])
             @ [CHR 0x0A] @ '');'')\<close>
    using assms
      mapE_columnDefinition_text
        [of "inferSqlType h" userData "Object_keys firstRow" types, OF types]
    by (simp add: generateDynamicCreateTableSql_def bindE_def createTableText_def quoted_def
          nl_def idColumn_def createdAtColumn_def updatedAtColumn_def)
  ultimately show ?thesis using sanitize_chars by blast
qed

theorem create_table_statement_witness:
  \<open>generateDynamicCreateTableSql ''data''
     [[(''a.b'', JString ''5''), (''a-b'', JNumber (Num 5)), (''Unit_Price 9'', JBoolean True)]]
     (inferSqlType exampleHost)
   = Inr (''CREATE TABLE IF NOT EXISTS "data" ('' @ [CHR 0x0A]
         @ ''    "id" SERIAL PRIMARY KEY,'' @ [CHR 0x0A]
         @ ''    "a_b" VARCHAR(255) ,'' @ [CHR 0x0A]
         @ ''    "a_b" NUMERIC ,'' @ [CHR 0x0A]
         @ ''    "Unit_Price_9" BOOLEAN ,'' @ [CHR 0x0A]
         @ ''    "createdAt" TIMESTAMP WITH TIME ZONE DEFAULT CURRENT_TIMESTAMP,'' @ [CHR 0x0A]
         @ ''    "updatedAt" TIMESTAMP WITH TIME ZONE DEFAULT CURRENT_TIMESTAMP'' @ [CHR 0x0A]
         @ '');'')\<close>
proof -
  let ?row = "[(''a.b'', JString ''5''), (''a-b'', JNumber (Num 5)),
               (''Unit_Price 9'', JBoolean True)]"
  have keys: "Object_keys ?row = [''a.b'', ''a-b'', ''Unit_Price 9'']"
    by (simp add: Object_keys_def)
  have name: "''data'' \<noteq> []" by simp
  obtain types where len: "length types = length [''a.b'', ''a-b'', ''Unit_Price 9'']"
    and ty: "\<forall>i<length [''a.b'', ''a-b'', ''Unit_Price 9''].
               inferSqlType exampleHost ([''a.b'', ''a-b'', ''Unit_Price 9''] ! i) [?row]
                 = Inr (types ! i)"
    and sql: \<open>generateDynamicCreateTableSql ''data'' [?row] (inferSqlType exampleHost) =
        Inr (''CREATE TABLE IF NOT EXISTS "'' @ ''data'' @ ''" ('' @ [CHR 0x0A] @ ''    ''
             @ join ('','' @ [CHR 0x0A] @ ''    '')
                 ([''"id" SERIAL PRIMARY KEY'']
                  @ map2 (\<lambda>feature sqlType. ''"'' @ sanitize feature @ ''" '' @ sqlType @ '' '')
                      [''a.b'', ''a-b'', ''Unit_Price 9''] types
                  @ [''"createdAt" TIMESTAMP WITH TIME ZONE DEFAULT CURRENT_TIMESTAMP'',
                     ''"updatedAt" TIMESTAMP WITH TIME ZONE DEFAULT CURRENT_TIMESTAMP''])
             @ [CHR 0x0A] @ '');'')\<close>
    using create_table_statement
        [where tableName = "''data''" and userData = "[?row]" and firstRow = ?row
           and rest = "[]" and h = exampleHost, OF name refl]
    unfolding keys
    by blast
  have t0: "inferSqlType exampleHost ''a.b'' [?row] = Inr ''VARCHAR(255)''" by code_simp
  have t1: "inferSqlType exampleHost ''a-b'' [?row] = Inr ''NUMERIC''" by code_simp
  have t2: "inferSqlType exampleHost ''Unit_Price 9'' [?row] = Inr ''BOOLEAN''" by code_simp
  have "types ! 0 = ''VARCHAR(255)''" using ty [rule_format, of 0] t0 by simp
  moreover have "types ! 1 = ''NUMERIC''" using ty [rule_format, of 1] t1 by simp
  moreover have "types ! 2 = ''BOOLEAN''" using ty [rule_format, of 2] t2 by simp
  moreover obtain a b c where "types = [a, b, c]"
    using len by (auto simp: length_Suc_conv)
  ultimately have "types = [''VARCHAR(255)'', ''NUMERIC'', ''BOOLEAN'']" by simp
  then show ?thesis
    unfolding sql by (simp add: sanitize_def isWordChar_def)
qed

text \<open>
  Claim C8, as stated: the generator raises for every dataset with no data column. It does
  not: a row list whose first row has no key is not empty, and the generator returns a
  statement for a table with the primary key and the audit columns only.
\<close>

theorem create_table_without_columns_counterexample:
  "Object_keys [] = []
   \<and> generateDynamicCreateTableSql ''data'' [[]] (inferSqlType exampleHost)
       = Inr (createTableText ''data'' [idColumn, createdAtColumn, updatedAtColumn])"
  by (simp add: generateDynamicCreateTableSql_def Object_keys_def bindE_def)

text \<open>
  Claim C8, amended. The generator raises exactly when the table name or the row list is
  empty: the guard of the source is on the rows, from whose first element the columns are
  taken. With no rows the error is the one of the missing name or of the empty data. With
  rows whose first row has no key, the statement creates the primary key and the two audit
  columns only.
\<close>

theorem create_table_fails_iff_no_rows:
  \<open>((\<exists>e. generateDynamicCreateTableSql tableName userData (inferSqlType h) = Inl e)
      \<longleftrightarrow> tableName = [] \<or> userData = [])
   \<and> generateDynamicCreateTableSql tableName [] (inferSqlType h) =
       Inl (Error (if tableName = [] then ''Table name must be provided.''
                   else ''User data is empty, cannot infer schema for dynamic table creation.''))
   \<and> (tableName \<noteq> [] \<and> Object_keys firstRow = [] \<longrightarrow>
        generateDynamicCreateTableSql tableName (firstRow # rest) (inferSqlType h) =
          Inr (''CREATE TABLE IF NOT EXISTS "'' @ tableName @ ''" ('' @ [CHR 0x0A]
               @ ''    "id" SERIAL PRIMARY KEY,'' @ [CHR 0x0A]
               @ ''    "createdAt" TIMESTAMP WITH TIME ZONE DEFAULT CURRENT_TIMESTAMP,'' @ [CHR 0x0A]
               @ ''    "updatedAt" TIMESTAMP WITH TIME ZONE DEFAULT CURRENT_TIMESTAMP'' @ [CHR 0x0A]
               @ '');''))\<close>
proof -
  have keyless: \<open>generateDynamicCreateTableSql tableName (firstRow # rest) (inferSqlType h) =
          Inr (''CREATE TABLE IF NOT EXISTS "'' @ tableName @ ''" ('' @ [CHR 0x0A]
               @ ''    "id" SERIAL PRIMARY KEY,'' @ [CHR 0x0A]
               @ ''    "createdAt" TIMESTAMP WITH TIME ZONE DEFAULT CURRENT_TIMESTAMP,'' @ [CHR 0x0A]
               @ ''    "updatedAt" TIMESTAMP WITH TIME ZONE DEFAULT CURRENT_TIMESTAMP'' @ [CHR 0x0A]
               @ '');'')\<close>
    if "tableName \<noteq> [] \<and> Object_keys firstRow = []"
    using that
    by (simp add: generateDynamicCreateTableSql_def bindE_def createTableText_def quoted_def
          nl_def idColumn_def createdAtColumn_def updatedAtColumn_def)
  have "\<exists>s. generateDynamicCreateTableSql tableName userData (inferSqlType h) = Inr s"
    if name: "tableName \<noteq> []" and rows: "userData \<noteq> []"
  proof -
    obtain firstRow rest where "userData = firstRow # rest"
      using rows by (cases userData) auto
    then have "\<exists>types. generateDynamicCreateTableSql tableName userData (inferSqlType h) =
        Inr (createTableText tableName
               ([idColumn] @ map2 (\<lambda>feature sqlType. quoted (sanitize feature) @ '' '' @ sqlType @ '' '')
                      (Object_keys firstRow) types @ [createdAtColumn, updatedAtColumn]))"
      using name mapE_total [of "Object_keys firstRow" "\<lambda>feature. inferSqlType h feature userData"]
        inferSqlType_total
        mapE_columnDefinition [of "inferSqlType h" userData "Object_keys firstRow"]
      by (fastforce simp: generateDynamicCreateTableSql_def bindE_def)
    then show ?thesis by blast
  qed
  moreover have "\<exists>e. generateDynamicCreateTableSql tableName userData (inferSqlType h) = Inl e"
    if "tableName = [] \<or> userData = []"
    using that by (auto simp: generateDynamicCreateTableSql_def)
  ultimately have iff:
    "(\<exists>e. generateDynamicCreateTableSql tableName userData (inferSqlType h) = Inl e)
      \<longleftrightarrow> tableName = [] \<or> userData = []"
    by (cases "tableName = [] \<or> userData = []") auto
  have none: "generateDynamicCreateTableSql tableName [] (inferSqlType h) =
       Inl (Error (if tableName = [] then ''Table name must be provided.''
                   else ''User data is empty, cannot infer schema for dynamic table creation.''))"
    by (simp add: generateDynamicCreateTableSql_def)
  show ?thesis
    using iff none keyless by (intro conjI impI)
qed

theorem create_table_fails_iff_no_rows_witness:
  "generateDynamicCreateTableSql ''data'' [] (inferSqlType exampleHost) =
     Inl (Error ''User data is empty, cannot infer schema for dynamic table creation.'')"
  using create_table_fails_iff_no_rows [of "''data''" "[]" exampleHost] by simp

section \<open>The bulk-insert statement\<close>

lemma getProp_restrict:
  "key \<in> set keys \<Longrightarrow>
   getProp h (filter (\<lambda>kv. fst kv \<in> set keys) row) key = getProp h row key"
  by (induction row) (auto simp: getProp_def)

lemma mapE_cong_set:
  "(\<And>x. x \<in> set xs \<Longrightarrow> f x = g x) \<Longrightarrow> mapE f xs = mapE g xs"
  by (induction xs) (auto simp: bindE_def)

lemma valuesClause_restrict:
  "valuesClause h keys (restrictRow keys record) = valuesClause h keys record"
  unfolding valuesClause_def restrictRow_def
  by (rule arg_cong [where f = "\<lambda>m. bindE m _"], rule mapE_cong_set) (simp add: getProp_restrict)

lemma mapE_map: "mapE f (map g xs) = mapE (\<lambda>x. f (g x)) xs"
  by (induction xs) (auto simp: bindE_def)

lemma renderValue_cases:
  "renderValue h JNull = Inr ''NULL''"
  "renderValue h JUndefined = Inr ''NULL''"
  "renderValue h (JString []) = Inr ''NULL''"
  "s \<noteq> [] \<Longrightarrow> renderValue h (JString s) = Inr (literal (doubleQuotes s))"
  "renderValue h (JNumber n) = js_String h (JNumber n)"
  "renderValue h (JBoolean b) = Inr (if b then ''true'' else ''false'')"
  "renderValue h (JDate (TimeValue t)) = Inr (literal (toISOStringOfTime h t))"
  "renderValue h (JDate InvalidDate) = Inl (RangeError ''Invalid time value'')"
  "renderValue h (JObject (Some s)) = Inr (literal (doubleQuotes s))"
  "renderValue h (JObject None) = Inl (TypeError ''Cannot convert object to primitive value'')"
  "renderValue h (JFunction s) = Inr (literal (doubleQuotes s))"
  by (simp_all add: renderValue_def replaceQuotes_def stringMethod_def bindE_def toISOString_def
        toPrimitive_def)

lemma js_String_number: "\<exists>s. js_String h (JNumber n) = Inr s"
  by (cases n) simp_all

lemma renderValue_error:
  assumes "renderValue h v = Inl e"
  shows "v = JDate InvalidDate \<or> v = JObject None"
proof (cases v)
  case (JString s)
  then show ?thesis using assms by (cases "s = []") (simp_all add: renderValue_cases)
next
  case (JNumber n)
  then show ?thesis using assms js_String_number [of h n] by (auto simp: renderValue_cases)
next
  case (JDate d)
  then show ?thesis using assms by (cases d) (simp_all add: renderValue_cases)
next
  case (JObject converted)
  then show ?thesis using assms by (cases converted) (simp_all add: renderValue_cases)
qed (insert assms, simp_all add: renderValue_cases)

lemma mapE_error_member:
  "mapE f xs = Inl e \<Longrightarrow> \<exists>x \<in> set xs. f x = Inl e"
  by (induction xs) (auto simp: bindE_def split: sum.splits)

lemma valuesClause_error:
  "valuesClause h keys record = Inl e \<Longrightarrow>
   \<exists>key \<in> set keys. getProp h record key = JDate InvalidDate \<or> getProp h record key = JObject None"
  unfolding valuesClause_def
  by (auto simp: bindE_def split: sum.splits dest!: mapE_error_member renderValue_error)






text \<open>
  Claim C10. The statement generated for a non-empty row list is the statement generated for
  the same rows with every key outside the first row removed: a value under a key that only
  later rows have never reaches the statement. Each tuple has one value for each key of the
  first row, so with the two timestamps as many values as the column list has columns. An
  error can only come from a missing table name or from a cell under a key of the first row
  that is an invalid date or an object that does not convert to a primitive, never from a
  stray key.
\<close>

theorem insert_ignores_stray_keys:
  assumes "userData = firstRecord # rest"
  shows "generateDynamicInsertSql h tableName userData =
           generateDynamicInsertSql h tableName
             (map (restrictRow (Object_keys firstRecord)) userData)
    \<and> (\<forall>record \<in> set userData. \<forall>values.
           mapE (\<lambda>column. renderValue h (getProp h record column)) (Object_keys firstRecord)
             = Inr values
           \<longrightarrow> length values + 2 = length (insertColumnList (Object_keys firstRecord)))
    \<and> (\<forall>e. generateDynamicInsertSql h tableName userData = Inl e \<longrightarrow>
           tableName = []
           \<or> (\<exists>record \<in> set userData. \<exists>key \<in> set (Object_keys firstRecord).
                 getProp h record key = JDate InvalidDate
               \<or> getProp h record key = JObject None))
    \<and> (\<forall>record \<in> set userData. \<forall>key \<in> set (Object_keys firstRecord).
           getProp h (restrictRow (Object_keys firstRecord) record) key = getProp h record key)"
proof (intro conjI)
  have keys: "Object_keys (restrictRow (Object_keys firstRecord) firstRecord) = Object_keys firstRecord"
    by (simp add: restrictRow_def Object_keys_def)
  show "generateDynamicInsertSql h tableName userData =
           generateDynamicInsertSql h tableName
             (map (restrictRow (Object_keys firstRecord)) userData)"
  proof -
    have "mapE (valuesClause h (Object_keys firstRecord))
            (map (restrictRow (Object_keys firstRecord)) (firstRecord # rest))
          = mapE (valuesClause h (Object_keys firstRecord)) (firstRecord # rest)"
      unfolding mapE_map valuesClause_restrict ..
    then have "mapE (valuesClause h (Object_keys firstRecord))
            (restrictRow (Object_keys firstRecord) firstRecord
               # map (restrictRow (Object_keys firstRecord)) rest)
          = mapE (valuesClause h (Object_keys firstRecord)) (firstRecord # rest)"
      by (simp only: list.map)
    then show ?thesis
      using assms
      by (simp add: generateDynamicInsertSql_def keys Let_def del: mapE.simps)
  qed
  show "\<forall>record \<in> set userData. \<forall>values.
           mapE (\<lambda>column. renderValue h (getProp h record column)) (Object_keys firstRecord)
             = Inr values
           \<longrightarrow> length values + 2 = length (insertColumnList (Object_keys firstRecord))"
    by (auto simp: insertColumnList_def dest: mapE_Inr_length)
  show "\<forall>e. generateDynamicInsertSql h tableName userData = Inl e \<longrightarrow>
           tableName = []
           \<or> (\<exists>record \<in> set userData. \<exists>key \<in> set (Object_keys firstRecord).
                 getProp h record key = JDate InvalidDate
               \<or> getProp h record key = JObject None)"
  proof (intro allI impI)
    fix e
    assume err: "generateDynamicInsertSql h tableName userData = Inl e"
    show "tableName = []
           \<or> (\<exists>record \<in> set userData. \<exists>key \<in> set (Object_keys firstRecord).
                 getProp h record key = JDate InvalidDate
               \<or> getProp h record key = JObject None)"
    proof (cases "tableName = []")
      case True
      then show ?thesis by simp
    next
      case False
      then have "mapE (valuesClause h (Object_keys firstRecord)) userData = Inl e"
        using err assms
        by (auto simp: generateDynamicInsertSql_def Let_def bindE_def split: sum.splits)
      then obtain r where "r \<in> set userData"
        and "valuesClause h (Object_keys firstRecord) r = Inl e"
        using mapE_error_member by blast
      then show ?thesis using valuesClause_error by blast
    qed
  qed
  show "\<forall>record \<in> set userData. \<forall>key \<in> set (Object_keys firstRecord).
           getProp h (restrictRow (Object_keys firstRecord) record) key = getProp h record key"
    by (simp add: restrictRow_def getProp_restrict)
qed

theorem insert_ignores_stray_keys_witness:
  \<open>generateDynamicInsertSql exampleHost ''data''
     [[(''a'', JNumber (Num 5))], [(''a'', JNumber (Num 10)), (''zz'', JString ''stray'')]]
   = Inr (''INSERT INTO "data" ("a", "createdAt", "updatedAt")'' @ [CHR 0x0A]
          @ ''VALUES'' @ [CHR 0x0A]
          @ ''(5, CURRENT_TIMESTAMP, CURRENT_TIMESTAMP),'' @ [CHR 0x0A]
          @ ''(10, CURRENT_TIMESTAMP, CURRENT_TIMESTAMP);'')\<close>
proof -
  have "generateDynamicInsertSql exampleHost ''data''
     [[(''a'', JNumber (Num 5))], [(''a'', JNumber (Num 10)), (''zz'', JString ''stray'')]]
    = generateDynamicInsertSql exampleHost ''data''
        (map (restrictRow (Object_keys [(''a'', JNumber (Num 5))]))
          [[(''a'', JNumber (Num 5))], [(''a'', JNumber (Num 10)), (''zz'', JString ''stray'')]])"
    using insert_ignores_stray_keys [OF refl] by blast
  also have "\<dots> = generateDynamicInsertSql exampleHost ''data''
        [[(''a'', JNumber (Num 5))], [(''a'', JNumber (Num 10))]]"
    by (simp add: restrictRow_def Object_keys_def)
  also have \<open>\<dots> = Inr (''INSERT INTO "data" ("a", "createdAt", "updatedAt")'' @ [CHR 0x0A]
          @ ''VALUES'' @ [CHR 0x0A]
          @ ''(5, CURRENT_TIMESTAMP, CURRENT_TIMESTAMP),'' @ [CHR 0x0A]
          @ ''(10, CURRENT_TIMESTAMP, CURRENT_TIMESTAMP);'')\<close>
    by code_simp
  finally show ?thesis .
qed

section \<open>Value coercion\<close>

lemma js_Number_total: "v \<noteq> JObject None \<Longrightarrow> \<exists>n. js_Number h v = Inr n"
proof (cases v)
  case (JDate d)
  then show ?thesis by (cases d) simp_all
next
  case (JObject converted)
  moreover assume "v \<noteq> JObject None"
  ultimately show ?thesis by (cases converted) (simp_all add: toPrimitive_def bindE_def)
qed simp_all

lemma js_newDate_total: "v \<noteq> JObject None \<Longrightarrow> \<exists>d. js_newDate h v = Inr d"
proof (cases v)
  case (JNumber n)
  then show ?thesis by (cases n) simp_all
next
  case (JObject converted)
  moreover assume "v \<noteq> JObject None"
  ultimately show ?thesis by (cases converted) (simp_all add: toPrimitive_def bindE_def)
qed simp_all

lemma js_String_total: "v \<noteq> JObject None \<Longrightarrow> \<exists>s. js_String h v = Inr s"
proof (cases v)
  case (JNumber n)
  then show ?thesis by (cases n) simp_all
next
  case (JDate d)
  then show ?thesis by (cases d) simp_all
next
  case (JObject converted)
  moreover assume "v \<noteq> JObject None"
  ultimately show ?thesis by (cases converted) (simp_all add: toPrimitive_def)
qed simp_all

lemma coerceValue_total:
  assumes "v \<noteq> JObject None \<or> inferredType = BOOLEAN"
  shows "\<exists>r. coerceValue h inferredType v = Inr r"
proof (cases "v = JObject None")
  case True
  then show ?thesis using assms by (simp add: coerceValue_def)
next
  case False
  obtain n d s where "js_Number h v = Inr n" and "js_newDate h v = Inr d"
    and "js_String h v = Inr s"
    using False js_Number_total js_newDate_total js_String_total by blast
  moreover have "\<exists>l. toLowerCase v = Inr l" if "typeof v = ''string''"
    using that by (cases v) (simp_all add: toLowerCase_def stringMethod_def)
  ultimately show ?thesis
    by (auto simp: coerceValue_def bindE_def)
qed

lemma getProp_own:
  "feature \<in> set (Object_keys row) \<Longrightarrow> \<exists>v. map_of row feature = Some v \<and> getProp h row feature = v"
  by (induction row) (auto simp: Object_keys_def getProp_def)

lemma processRow_total:
  assumes "\<forall>key \<in> set (Object_keys row). getProp h row key \<noteq> JObject None"
  shows "\<exists>row'. processRow h userData row = Inr row'"
  unfolding processRow_def
proof (rule mapE_total)
  fix feature
  assume "feature \<in> set (Object_keys row)"
  then have own: "getProp h row feature \<noteq> JObject None" using assms by blast
  obtain t where t: "inferSequelizeType h feature userData = Inr t"
    using inferSequelizeType_total by blast
  obtain v' where "coerceValue h t (getProp h row feature) = Inr v'"
    using own coerceValue_total by blast
  then show "\<exists>y. (let v = getProp h row feature
          in bindE (inferSequelizeType h feature userData) (\<lambda>inferredType.
               bindE (coerceValue h inferredType v) (\<lambda>v'. Inr (feature, v')))) = Inr y"
    using t by (simp add: bindE_def)
qed

lemma processedUserData_total:
  assumes "\<forall>row \<in> set userData. \<forall>key \<in> set (Object_keys row). getProp h row key \<noteq> JObject None"
  shows "\<exists>rows. processedUserData h userData = Inr rows"
  unfolding processedUserData_def
  using assms by (intro mapE_total processRow_total) blast




section \<open>Pagination\<close>








section \<open>The existence check\<close>

lemma upload_empty_csv:
  assumes "cloudinaryUpload w = Some (''data.csv'', url)" and "axiosGet w" and "aiService w = Some answer"
  shows "api_upload h w (Some \<lparr>originalname = name, parsedRows = []\<rparr>) emptyDatabase =
     ((500, ErrorBody (Error ''User data is empty, cannot infer schema for dynamic table creation.'')),
      \<lparr>UploadedFile = [\<lparr>publicId = ''data.csv'', secureUrl = url, originalFilename = name\<rparr>],
       dataTable = None\<rparr>)"
  using assms
  by (simp add: api_upload_def uploadTry_def evictExisting_def bindA_def query_def liftE_def
        execute_def require_def returnA_def throwA_def selectUploadedFile_def emptyDatabase_def
        insertUploadedFile_def generateDynamicCreateTableSql_def Let_def)

text \<open>
  Claim C9. \<open>/api/check-table\<close> of the serverless handlers answers true exactly when the
  metadata table has a row with public id \<open>data.csv\<close>. Its answer does not depend on the
  table \<open>data\<close>. A state in which it answers true while the table is absent is reached from
  the empty database by one upload: the metadata row is inserted before the table is
  created, and for a file without rows the generator of the table raises.
\<close>

theorem check_table_reads_metadata_only:
  "api_check_table db =
     (200, StatusBody (\<exists>f \<in> set (UploadedFile db). publicId f = ''data.csv''))
   \<and> api_check_table (db\<lparr>dataTable := anyTable\<rparr>) = api_check_table db
   \<and> (cloudinaryUpload w = Some (''data.csv'', url) \<and> axiosGet w \<and> aiService w = Some answer \<longrightarrow>
        api_check_table
          (snd (api_upload h w (Some \<lparr>originalname = name, parsedRows = []\<rparr>) emptyDatabase))
          = (200, StatusBody True)
      \<and> dataTable
          (snd (api_upload h w (Some \<lparr>originalname = name, parsedRows = []\<rparr>) emptyDatabase))
          = None)"
proof (intro conjI impI)
  show "api_check_table db =
     (200, StatusBody (\<exists>f \<in> set (UploadedFile db). publicId f = ''data.csv''))"
    by (auto simp: api_check_table_def selectUploadedFile_def Let_def filter_empty_conv)
  show "api_check_table (db\<lparr>dataTable := anyTable\<rparr>) = api_check_table db"
    by (simp add: api_check_table_def selectUploadedFile_def)
next
  assume w: "cloudinaryUpload w = Some (''data.csv'', url) \<and> axiosGet w \<and> aiService w = Some answer"
  then have up: "api_upload h w (Some \<lparr>originalname = name, parsedRows = []\<rparr>) emptyDatabase =
     ((500, ErrorBody (Error ''User data is empty, cannot infer schema for dynamic table creation.'')),
      \<lparr>UploadedFile = [\<lparr>publicId = ''data.csv'', secureUrl = url, originalFilename = name\<rparr>],
       dataTable = None\<rparr>)"
    using upload_empty_csv by blast
  show "api_check_table
          (snd (api_upload h w (Some \<lparr>originalname = name, parsedRows = []\<rparr>) emptyDatabase))
          = (200, StatusBody True)"
    unfolding up by (simp add: api_check_table_def selectUploadedFile_def)
  show "dataTable
          (snd (api_upload h w (Some \<lparr>originalname = name, parsedRows = []\<rparr>) emptyDatabase))
          = None"
    unfolding up by simp
qed

theorem check_table_reads_metadata_only_witness:
  "api_check_table
     (snd (api_upload exampleHost exampleWorld
             (Some \<lparr>originalname = ''empty.csv'', parsedRows = []\<rparr>) emptyDatabase))
     = (200, StatusBody True)
   \<and> dataTable
     (snd (api_upload exampleHost exampleWorld
             (Some \<lparr>originalname = ''empty.csv'', parsedRows = []\<rparr>) emptyDatabase))
     = None"
proof -
  have "cloudinaryUpload exampleWorld
          = Some (''data.csv'', ''https://res.cloudinary.com/demo/raw/upload/data.csv'')
        \<and> axiosGet exampleWorld \<and> aiService exampleWorld = Some ''{}''"
    by (simp add: exampleWorld_def)
  then show ?thesis
    using check_table_reads_metadata_only
      [of emptyDatabase None exampleWorld _ _ exampleHost "''empty.csv''"]
    by blast
qed

section \<open>The not-found condition of the reader\<close>

text \<open>
  The serverless reader asks the catalog first: it answers 404 exactly when the table
  \<open>data\<close> is absent from the database, whatever the process has seen before.
\<close>

lemma api_data_not_found_iff:
  "fst (api_data h w db q) = 404 \<longleftrightarrow> dataTable db = None"
  by (auto simp: api_data_def dataTableExists_def Let_def split: sum.splits prod.splits)

lemma api_data_not_found_message:
  "dataTable db = None \<Longrightarrow>
   api_data h w db q = (404, Message ''Data table not found. Please upload a CSV first.'')"
  by (simp add: api_data_def dataTableExists_def)

text \<open>
  Claim C3 asks that the reader fails with not-found exactly when the table \<open>data\<close> does not
  exist, by a check against the catalog and not against a variable of the process. The
  reader of \<open>server.js\<close> tests the variable \<open>DataTable\<close> instead. After a restart the variable
  is undefined: with the table present in the database and one row in it, the reader answers
  404, while \<open>/api/check-table\<close> of the same file, which asks the catalog, answers true. And
  after an upload whose insert was rejected the variable is set and the table dropped: the
  reader answers 500, not 404.
\<close>

theorem server_api_data_after_restart:
  "server_api_data exampleHost
     \<lparr>DataTable = None,
      durable = \<lparr>UploadedFile = [],
                 dataTable = Some \<lparr>catalogColumns = [''id'', ''x'', ''createdAt'', ''updatedAt''],
                                    storedRows = [[(''x'', JNumber (Num 5))]]\<rparr>\<rparr>\<rparr>
     \<lparr>query_page = None, query_limit = None\<rparr>
   = (404, Message ''Data table not found. Please upload a CSV first.'')
   \<and> server_api_check_table
     \<lparr>DataTable = None,
      durable = \<lparr>UploadedFile = [],
                 dataTable = Some \<lparr>catalogColumns = [''id'', ''x'', ''createdAt'', ''updatedAt''],
                                    storedRows = [[(''x'', JNumber (Num 5))]]\<rparr>\<rparr>\<rparr>
   = (200, StatusBody True)
   \<and> server_api_data exampleHost
     (snd (server_api_upload exampleHost exampleWorld
        (Some \<lparr>originalname = ''mixed.csv'',
               parsedRows = [[(''x'', JNumber (Num 5))], [(''x'', JBoolean True)]]\<rparr>)
        \<lparr>DataTable = None, durable = emptyDatabase\<rparr>))
     \<lparr>query_page = None, query_limit = None\<rparr>
   = (500, Message ''Failed to fetch data'')"
  by code_simp

section \<open>A rejected insert\<close>

text \<open>
  The upload of \<open>server.js\<close> wraps the insert in a \<open>try\<close> of its own and drops the table in
  the \<open>catch\<close>: whenever the insert is rejected, the answer is 500 and the table is gone.
  (The insert is reached when no cell is an object that does not convert to a primitive.)
\<close>

lemma server_api_upload_rejected_insert:
  assumes "aiService w = Some answer" and "syncAccepts w" and "\<not> bulkCreateAccepts w"
    and "parsedRows file \<noteq> []"
    and "\<forall>row \<in> set (parsedRows file). \<forall>key \<in> set (Object_keys row).
           getProp h row key \<noteq> JObject None"
  shows "fst (server_api_upload h w (Some file) st) = (500, ErrorBody (SqlError ''bulkCreate''))
       \<and> dataTable (durable (snd (server_api_upload h w (Some file) st))) = None"
proof -
  obtain firstRow rest where rows: "parsedRows file = firstRow # rest"
    using assms(4) by (cases "parsedRows file") auto
  obtain types where
    types: "mapE (\<lambda>feature. inferSequelizeType h feature (parsedRows file)) (Object_keys firstRow)
              = Inr types"
    using mapE_total [of "Object_keys firstRow"
        "\<lambda>feature. inferSequelizeType h feature (parsedRows file)"]
      inferSequelizeType_total by blast
  obtain processed where processed: "processedUserData h (parsedRows file) = Inr processed"
    using processedUserData_total [OF assms(5)] by blast
  show ?thesis
    using assms(1-3) rows types processed
    by (simp add: server_api_upload_def serverUploadTry_def bindA_def liftE_def execute_def
          sequelizeSync_def bulkCreate_def dropDataTable_def dropTableIfExists_def Let_def
          del: mapE.simps split: option.splits)
qed

text \<open>
  The serverless upload has one \<open>try\<close> around everything and no statement that drops the
  table: when the engine accepts the generated \<open>CREATE TABLE\<close> and rejects the generated
  \<open>INSERT\<close>, the answer is 500 and the table just created stays in the database, empty.
\<close>

lemma api_upload_rejected_insert:
  assumes "cloudinaryUpload w = Some (''data.csv'', url)" and "axiosGet w"
    and "aiService w = Some answer"
    and "generateDynamicCreateTableSql ''data'' (parsedRows file) (inferSqlType h) = Inr createSql"
    and "sqlAccepts w createSql"
    and "generateDynamicInsertSql h ''data'' (parsedRows file) = Inr insertSql"
    and "\<not> sqlAccepts w insertSql"
  shows "api_upload h w (Some file) emptyDatabase =
     ((500, ErrorBody (SqlError insertSql)),
      \<lparr>UploadedFile =
         [\<lparr>publicId = ''data.csv'', secureUrl = url, originalFilename = originalname file\<rparr>],
       dataTable = Some \<lparr>catalogColumns = createdColumns (parsedRows file), storedRows = []\<rparr>\<rparr>)"
  using assms
  by (simp add: api_upload_def uploadTry_def evictExisting_def bindA_def query_def liftE_def
        execute_def require_def returnA_def throwA_def selectUploadedFile_def emptyDatabase_def
        insertUploadedFile_def executeCreateTable_def executeInsert_def Let_def)

text \<open>
  Claim C1 asks that an upload whose insert is rejected after the table was created drops
  the table before it answers. The serverless upload does not. The file has the rows
  \<open>{x: 5}\<close> and \<open>{x: true}\<close>; the column is inferred as \<open>NUMERIC\<close>, the engine creates the
  table and rejects the insert of a boolean; the answer is 500 and the table \<open>data\<close> remains,
  with no rows.
\<close>

theorem upload_keeps_table_after_rejected_insert:
  "fst (fst (api_upload exampleHost exampleWorld
     (Some \<lparr>originalname = ''mixed.csv'',
            parsedRows = [[(''x'', JNumber (Num 5))], [(''x'', JBoolean True)]]\<rparr>)
     emptyDatabase)) = 500
   \<and> dataTable (snd (api_upload exampleHost exampleWorld
     (Some \<lparr>originalname = ''mixed.csv'',
            parsedRows = [[(''x'', JNumber (Num 5))], [(''x'', JBoolean True)]]\<rparr>)
     emptyDatabase))
     = Some \<lparr>catalogColumns = [''id'', ''x'', ''createdAt'', ''updatedAt''], storedRows = []\<rparr>"
  by code_simp

end
